theory Spec2Isabelle
  imports Main "HOL-Library.Sublist"
begin

section \<open>Data model\<close>

text \<open>
  The blog application of \<^verbatim>\<open>app.py\<close>. Its route handlers are embedded as functions from
  the application state (the three tables, the session cookie's user id and the queue of
  flashed messages) to either an error (an aborted or crashed request) or a response together
  with the state the request leaves behind.
\<close>

text \<open>
  Modelled from the spec: the ORM classes of \<^verbatim>\<open>models.py\<close> are not part of the sources.
  The spec gives User an id, a unique email, a display name and a hashed password; BlogPost a
  title, subtitle, body, cover image URL, a date string and an author reference; Comment a
  text, an author reference and a parent-post reference. References are the primary key of
  the row referred to.
\<close>

record User =
  user_id :: nat
  email :: string
  name :: string
  password :: string

record BlogPost =
  post_id :: nat
  title :: string
  subtitle :: string
  body :: string
  img_url :: string
  author :: nat
  date :: string

record Comment =
  comment_id :: nat
  comment_text :: string
  comment_author :: nat
  parent_post :: "nat option"

text \<open>
  Modelled from the spec: the form classes of \<^verbatim>\<open>forms.py\<close> are not part of the sources;
  the fields are the ones the handlers read.
\<close>

record RegisterForm =
  rf_email :: string
  rf_name :: string
  rf_password :: string

record LoginForm =
  lf_email :: string
  lf_password :: string

record CommentForm =
  cf_comment_text :: string

record CreatePostForm =
  pf_title :: string
  pf_subtitle :: string
  pf_img_url :: string
  pf_body :: string

record ContactForm =
  ct_name :: string
  ct_email :: string
  ct_phone_number :: string
  ct_message :: string

datatype http_method = GET | POST

text \<open>
  A request carries its method, the submitted form data and the outcome of the validators
  that \<^verbatim>\<open>forms.py\<close> attaches to the form (with the CSRF check).
\<close>

record 'f request =
  http_method :: http_method
  form :: 'f
  validates :: bool

definition validate_on_submit :: "'f request \<Rightarrow> bool" where
  "validate_on_submit req \<longleftrightarrow> http_method req = POST \<and> validates req"

record app_state =
  users :: "User list"
  posts :: "BlogPost list"
  comments :: "Comment list"
  session_user_id :: "nat option"
  flashes :: "(string \<times> string) list"

text \<open>
  \<^verbatim>\<open>abort(code)\<close> and \<^verbatim>\<open>get_or_404\<close> raise an HTTP exception that becomes the response
  with that status; any other exception that leaves a handler is an internal server error.
  Nothing is committed on either path.
\<close>

datatype error = Abort nat | AttributeError string

fun status_code :: "error \<Rightarrow> nat" where
  "status_code (Abort code) = code"
| "status_code (AttributeError _) = 500"

datatype endpoint = Login_ep | Get_all_posts_ep | Show_post_ep nat | Contact_ep

datatype page =
    Register_html
  | Login_html
  | Index_html "BlogPost list"
  | Post_html BlogPost string
  | Make_post_html CreatePostForm bool
  | About_html
  | Contact_html bool

datatype response = Redirect endpoint | Render page

type_synonym 'a result = "error + 'a"

section \<open>Session and identity\<close>

definition get_or_404 :: "('r \<Rightarrow> nat) \<Rightarrow> 'r list \<Rightarrow> nat \<Rightarrow> 'r result" where
  "get_or_404 key rows k =
     (case find (\<lambda>r. key r = k) rows of
        None \<Rightarrow> Inl (Abort 404)
      | Some r \<Rightarrow> Inr r)"

definition load_user :: "app_state \<Rightarrow> nat \<Rightarrow> User result" where
  "load_user s uid = get_or_404 user_id (users s) uid"

text \<open>
  Flask-Login's \<^verbatim>\<open>current_user\<close>: the anonymous object when the session holds no user id,
  otherwise what \<^verbatim>\<open>load_user\<close> returns. The anonymous object has the attributes
  \<^verbatim>\<open>is_authenticated\<close>, \<^verbatim>\<open>is_active\<close>, \<^verbatim>\<open>is_anonymous\<close> and \<^verbatim>\<open>get_id\<close>, and no \<^verbatim>\<open>id\<close>.
\<close>

datatype identity = AnonymousUserMixin | Authenticated User

definition current_user :: "app_state \<Rightarrow> identity result" where
  "current_user s =
     (case session_user_id s of
        None \<Rightarrow> Inr AnonymousUserMixin
      | Some uid \<Rightarrow>
          (case load_user s uid of
             Inl e \<Rightarrow> Inl e
           | Inr u \<Rightarrow> Inr (Authenticated u)))"

fun is_authenticated :: "identity \<Rightarrow> bool" where
  "is_authenticated AnonymousUserMixin = False"
| "is_authenticated (Authenticated u) = True"

text \<open>Reading \<^verbatim>\<open>current_user.id\<close>; the error names the missing attribute.\<close>

fun identity_id :: "identity \<Rightarrow> nat result" where
  "identity_id AnonymousUserMixin = Inl (AttributeError ''id'')"
| "identity_id (Authenticated u) = Inr (user_id u)"

text \<open>
  Passing \<^verbatim>\<open>current_user\<close> where the ORM expects a User row (the value of a relationship
  attribute): the ORM reads the instance state of the object, which the anonymous object
  does not have.
\<close>

fun as_user :: "identity \<Rightarrow> User result" where
  "as_user AnonymousUserMixin = Inl (AttributeError ''_sa_instance_state'')"
| "as_user (Authenticated u) = Inr u"

definition login_user :: "User \<Rightarrow> app_state \<Rightarrow> app_state" where
  "login_user u s = s\<lparr>session_user_id := Some (user_id u)\<rparr>"

definition logout_user :: "app_state \<Rightarrow> app_state" where
  "logout_user s = s\<lparr>session_user_id := None\<rparr>"

definition flash :: "string \<Rightarrow> string \<Rightarrow> app_state \<Rightarrow> app_state" where
  "flash message category s = s\<lparr>flashes := flashes s @ [(category, message)]\<rparr>"

section \<open>Library functions the handlers call\<close>

text \<open>Python's \<^verbatim>\<open>str\<close> on the values an f-string interpolates.\<close>

fun str_nat :: "nat \<Rightarrow> string" where
  "str_nat n =
     (if n < 10 then [''0123456789'' ! n]
      else str_nat (n div 10) @ [''0123456789'' ! (n mod 10)])"

declare str_nat.simps [simp del]

definition str_int :: "int \<Rightarrow> string" where
  "str_int i = (if i < 0 then ''-'' @ str_nat (nat (- i)) else str_nat (nat i))"

definition str_bool :: "bool \<Rightarrow> string" where
  "str_bool b = (if b then ''True'' else ''False'')"

definition str_opt :: "string option \<Rightarrow> string" where
  "str_opt v = (case v of None \<Rightarrow> ''None'' | Some x \<Rightarrow> x)"

text \<open>
  \<^verbatim>\<open>date.today().strftime("%B %d, %Y")\<close>: the full month name, the day of the month as two
  digits, a comma and the year. The clock is a parameter of the handler that reads it.
\<close>

record pydate =
  year :: nat
  month :: nat
  day :: nat

definition month_name :: "nat \<Rightarrow> string" where
  "month_name m =
     (if m = 1 then ''January'' else if m = 2 then ''February''
      else if m = 3 then ''March'' else if m = 4 then ''April''
      else if m = 5 then ''May'' else if m = 6 then ''June''
      else if m = 7 then ''July'' else if m = 8 then ''August''
      else if m = 9 then ''September'' else if m = 10 then ''October''
      else if m = 11 then ''November'' else if m = 12 then ''December''
      else [])"

definition two_digits :: "nat \<Rightarrow> string" where
  "two_digits d = (if d < 10 then ''0'' @ str_nat d else str_nat d)"

definition strftime_B_d_Y :: "pydate \<Rightarrow> string" where
  "strftime_B_d_Y d =
     month_name (month d) @ '' '' @ two_digits (day d) @ '', '' @ str_nat (year d)"

text \<open>
  Werkzeug's \<^verbatim>\<open>generate_password_hash\<close> draws a salt of the requested length and returns
  \<^verbatim>\<open>method:iterations$salt$digest\<close>. The salt generator, the iteration count of
  the installed version and the key derivation function are parameters, grouped in one record;
  so is the verification function \<^verbatim>\<open>check_password_hash\<close>.
\<close>

record security =
  gen_salt :: "nat \<Rightarrow> string"
  iterations :: nat
  derive :: "string \<Rightarrow> string \<Rightarrow> string \<Rightarrow> string"
  check_password_hash :: "string \<Rightarrow> string \<Rightarrow> bool"

definition generate_password_hash :: "security \<Rightarrow> string \<Rightarrow> string \<Rightarrow> nat \<Rightarrow> string" where
  "generate_password_hash sec pw method salt_length =
     (let salt = gen_salt sec salt_length;
          actual_method = method @ '':'' @ str_nat (iterations sec)
      in actual_method @ ''$'' @ salt @ ''$'' @ derive sec actual_method salt pw)"

definition gravatar_url :: "int \<Rightarrow> string \<Rightarrow> string \<Rightarrow> bool \<Rightarrow> string" where
  "gravatar_url sz rating dflt force_default =
     ''https://www.gravatar.com/avatar/?s='' @ str_int sz @ ''&d='' @ dflt
       @ ''&r='' @ rating @ ''&f='' @ str_bool force_default"

text \<open>The call \<^verbatim>\<open>gravatar_url()\<close> of the post page: every parameter at its default.\<close>

definition gravatar_url_default :: string where
  "gravatar_url_default = gravatar_url 100 ''g'' ''retro'' False"

definition construct_msg :: "string option \<Rightarrow> string \<Rightarrow> string \<Rightarrow> string \<Rightarrow> string \<Rightarrow> string" where
  "construct_msg FROM_EMAIL nm em phone_number msg =
     (let nl = [CHR 0x0A]; indent = replicate 24 (CHR '' '') in
      ''Subject: Blog Website Contact '' @ nl @ ''From: noreply <'' @ str_opt FROM_EMAIL @ ''> ''
        @ nl @ nl @ nl
        @ indent @ ''You got a contact message '' @ nl @ nl
        @ indent @ ''From: '' @ nm @ '' '' @ nl @ nl
        @ indent @ ''email: '' @ em @ '' '' @ nl @ nl
        @ indent @ ''phone number: '' @ phone_number @ '' '' @ nl @ nl
        @ indent @ ''message: '' @ msg)"

section \<open>The admin guard\<close>

definition admin_only :: "(app_state \<Rightarrow> 'a result) \<Rightarrow> app_state \<Rightarrow> 'a result" where
  "admin_only f s =
     (case current_user s of
        Inl e \<Rightarrow> Inl e
      | Inr cu \<Rightarrow>
          (case identity_id cu of
             Inl e \<Rightarrow> Inl e
           | Inr i \<Rightarrow> if i \<noteq> 1 then Inl (Abort 403) else f s))"

section \<open>Route handlers\<close>

type_synonym outcome = "(response \<times> app_state) result"

definition register :: "security \<Rightarrow> nat \<Rightarrow> RegisterForm request \<Rightarrow> app_state \<Rightarrow> outcome" where
  "register sec new_id req s =
     (if validate_on_submit req then
        (case find (\<lambda>u. email u = rf_email (form req)) (users s) of
           Some user \<Rightarrow>
             Inr (Redirect Login_ep,
                  flash ''You've already signed up with that email, log in instead!''
                    ''message'' s)
         | None \<Rightarrow>
             (let hash_and_salted_password =
                    generate_password_hash sec (rf_password (form req)) ''pbkdf2:sha256'' 8;
                  new_user = \<lparr>user_id = new_id, email = rf_email (form req),
                              name = rf_name (form req),
                              password = hash_and_salted_password\<rparr>;
                  s1 = s\<lparr>users := users s @ [new_user]\<rparr>
              in Inr (Redirect Get_all_posts_ep, login_user new_user s1)))
      else Inr (Render Register_html, s))"

definition login :: "security \<Rightarrow> LoginForm request \<Rightarrow> app_state \<Rightarrow> outcome" where
  "login sec req s =
     (if validate_on_submit req then
        (case find (\<lambda>u. email u = lf_email (form req)) (users s) of
           None \<Rightarrow>
             Inr (Redirect Login_ep,
                  flash ''That email does not exist, please try again.'' ''message'' s)
         | Some user \<Rightarrow>
             if \<not> check_password_hash sec (password user) (lf_password (form req)) then
               Inr (Redirect Login_ep,
                    flash ''Password incorrect, please try again.'' ''message'' s)
             else Inr (Redirect Get_all_posts_ep, login_user user s))
      else Inr (Render Login_html, s))"

definition logout :: "app_state \<Rightarrow> outcome" where
  "logout s = Inr (Redirect Get_all_posts_ep, logout_user s)"

definition get_all_posts :: "app_state \<Rightarrow> outcome" where
  "get_all_posts s = Inr (Render (Index_html (posts s)), s)"

definition show_post :: "nat \<Rightarrow> nat \<Rightarrow> CommentForm request \<Rightarrow> app_state \<Rightarrow> outcome" where
  "show_post new_id pid req s =
     (case get_or_404 post_id (posts s) pid of
        Inl e \<Rightarrow> Inl e
      | Inr requested_post \<Rightarrow>
          if validate_on_submit req then
            (case current_user s of
               Inl e \<Rightarrow> Inl e
             | Inr cu \<Rightarrow>
                 if \<not> is_authenticated cu then
                   Inr (Redirect Login_ep,
                        flash ''You need to login or register to comment.'' ''message'' s)
                 else
                   (case as_user cu of
                      Inl e \<Rightarrow> Inl e
                    | Inr u \<Rightarrow>
                        (let new_comment =
                               \<lparr>comment_id = new_id,
                                comment_text = cf_comment_text (form req),
                                comment_author = user_id u,
                                parent_post = Some (post_id requested_post)\<rparr>;
                             s1 = s\<lparr>comments := comments s @ [new_comment]\<rparr>
                         in Inr (Render (Post_html requested_post gravatar_url_default), s1))))
          else Inr (Render (Post_html requested_post gravatar_url_default), s))"

definition add_new_post_body ::
    "pydate \<Rightarrow> nat \<Rightarrow> CreatePostForm request \<Rightarrow> app_state \<Rightarrow> outcome" where
  "add_new_post_body today new_id req s =
     (if validate_on_submit req then
        (case current_user s of
           Inl e \<Rightarrow> Inl e
         | Inr cu \<Rightarrow>
             (case as_user cu of
                Inl e \<Rightarrow> Inl e
              | Inr u \<Rightarrow>
                  (let new_post =
                         \<lparr>post_id = new_id, title = pf_title (form req),
                          subtitle = pf_subtitle (form req), body = pf_body (form req),
                          img_url = pf_img_url (form req), author = user_id u,
                          date = strftime_B_d_Y today\<rparr>
                   in Inr (Redirect Get_all_posts_ep, s\<lparr>posts := posts s @ [new_post]\<rparr>))))
      else Inr (Render (Make_post_html (form req) False), s))"

definition add_new_post ::
    "pydate \<Rightarrow> nat \<Rightarrow> CreatePostForm request \<Rightarrow> app_state \<Rightarrow> outcome" where
  "add_new_post today new_id req = admin_only (add_new_post_body today new_id req)"

text \<open>
  The edit form is created with the post's fields as defaults; on a POST its data are the
  submitted values. The assignments to the post reach the store with the commit, which the
  handler runs only after \<^verbatim>\<open>post.author = current_user\<close> has gone through.
\<close>

definition edit_post :: "nat \<Rightarrow> CreatePostForm request \<Rightarrow> app_state \<Rightarrow> outcome" where
  "edit_post pid req s =
     (case get_or_404 post_id (posts s) pid of
        Inl e \<Rightarrow> Inl e
      | Inr post \<Rightarrow>
          (let edit_form =
                 (if http_method req = POST then form req
                  else \<lparr>pf_title = title post, pf_subtitle = subtitle post,
                        pf_img_url = img_url post, pf_body = body post\<rparr>)
           in if validate_on_submit req then
                (case current_user s of
                   Inl e \<Rightarrow> Inl e
                 | Inr cu \<Rightarrow>
                     (case as_user cu of
                        Inl e \<Rightarrow> Inl e
                      | Inr u \<Rightarrow>
                          (let post' = post\<lparr>title := pf_title edit_form,
                                            subtitle := pf_subtitle edit_form,
                                            img_url := pf_img_url edit_form,
                                            author := user_id u,
                                            body := pf_body edit_form\<rparr>
                           in Inr (Redirect (Show_post_ep (post_id post')),
                                   s\<lparr>posts := map (\<lambda>p. if post_id p = post_id post then post'
                                                       else p) (posts s)\<rparr>))))
              else Inr (Render (Make_post_html edit_form True), s)))"

text \<open>
  Deleting a row removes the rows with its primary key. What happens to the comments of a
  deleted post is decided by the relationship declared in \<^verbatim>\<open>models.py\<close>; it is the
  parameter \<open>cascade\<close>.
\<close>

definition delete_post_body ::
    "(nat \<Rightarrow> Comment list \<Rightarrow> Comment list) \<Rightarrow> nat \<Rightarrow> app_state \<Rightarrow> outcome" where
  "delete_post_body cascade pid s =
     (case get_or_404 post_id (posts s) pid of
        Inl e \<Rightarrow> Inl e
      | Inr post_to_delete \<Rightarrow>
          Inr (Redirect Get_all_posts_ep,
               s\<lparr>posts := filter (\<lambda>p. post_id p \<noteq> post_id post_to_delete) (posts s),
                 comments := cascade (post_id post_to_delete) (comments s)\<rparr>))"

definition delete_post ::
    "(nat \<Rightarrow> Comment list \<Rightarrow> Comment list) \<Rightarrow> nat \<Rightarrow> app_state \<Rightarrow> outcome" where
  "delete_post cascade pid = admin_only (delete_post_body cascade pid)"

definition about :: "app_state \<Rightarrow> outcome" where
  "about s = Inr (Render About_html, s)"

text \<open>
  \<^verbatim>\<open>send_email\<close> talks to the mail server; it is a parameter that tells, for a message,
  whether the call returns (\<open>None\<close>) or which exception it raises.
\<close>

definition contact ::
    "string option \<Rightarrow> (string \<Rightarrow> 'x option) \<Rightarrow> ContactForm request \<Rightarrow> app_state \<Rightarrow> outcome" where
  "contact FROM_EMAIL send_email req s =
     (if validate_on_submit req then
        (let formatted_message =
               construct_msg FROM_EMAIL (ct_name (form req)) (ct_email (form req))
                 (ct_phone_number (form req)) (ct_message (form req))
         in case send_email formatted_message of
              None \<Rightarrow>
                Inr (Redirect Contact_ep,
                     flash ''Your message has been sent successfully!'' ''success'' s)
            | Some exn \<Rightarrow>
                Inr (Redirect Contact_ep,
                     flash ''An unexpected error occurred. Please try again later''
                       ''danger'' s))
      else Inr (Render (Contact_html False), s))"

section \<open>Example data\<close>

text \<open>
  A small blog on which the theorems below are run: two users (the first one is the admin),
  one post, and stand-ins for the hashing library.
\<close>

definition alice :: User where
  "alice = \<lparr>user_id = 1, email = ''alice@example.com'', name = ''Alice'',
            password = ''pbkdf2:sha256:600000$ssssssss$terces''\<rparr>"

definition bob :: User where
  "bob = \<lparr>user_id = 2, email = ''bob@example.com'', name = ''Bob'',
          password = ''pbkdf2:sha256:600000$ssssssss$drowssap''\<rparr>"

definition hello_post :: BlogPost where
  "hello_post = \<lparr>post_id = 1, title = ''Hello'', subtitle = ''First post'', body = ''Text'',
                 img_url = ''https://example.com/a.png'', author = 1,
                 date = ''March 05, 2024''\<rparr>"

definition blog :: "nat option \<Rightarrow> app_state" where
  "blog sess = \<lparr>users = [alice, bob], posts = [hello_post], comments = [],
                session_user_id = sess, flashes = []\<rparr>"

definition demo_security :: security where
  "demo_security =
     \<lparr>gen_salt = (\<lambda>n. replicate n (CHR ''s'')), iterations = 600000,
      derive = (\<lambda>method salt pw. rev pw),
      check_password_hash = (\<lambda>pwhash pw. pwhash = ''pbkdf2:sha256:600000$ssssssss$'' @ rev pw)\<rparr>"

definition submit :: "'f \<Rightarrow> 'f request" where
  "submit f = \<lparr>http_method = POST, form = f, validates = True\<rparr>"

definition fetch :: "'f \<Rightarrow> 'f request" where
  "fetch f = \<lparr>http_method = GET, form = f, validates = False\<rparr>"

definition carol_form :: RegisterForm where
  "carol_form = \<lparr>rf_email = ''carol@example.com'', rf_name = ''Carol'', rf_password = ''abc''\<rparr>"

definition bob_again_form :: RegisterForm where
  "bob_again_form = \<lparr>rf_email = ''bob@example.com'', rf_name = ''Bobby'', rf_password = ''xyz''\<rparr>"

definition bob_login :: LoginForm where
  "bob_login = \<lparr>lf_email = ''bob@example.com'', lf_password = ''password''\<rparr>"

definition bob_wrong_login :: LoginForm where
  "bob_wrong_login = \<lparr>lf_email = ''bob@example.com'', lf_password = ''guess''\<rparr>"

definition dave_login :: LoginForm where
  "dave_login = \<lparr>lf_email = ''dave@example.com'', lf_password = ''password''\<rparr>"

definition nice_comment :: CommentForm where
  "nice_comment = \<lparr>cf_comment_text = ''Nice''\<rparr>"

definition draft :: CreatePostForm where
  "draft = \<lparr>pf_title = ''News'', pf_subtitle = ''Second post'',
            pf_img_url = ''https://example.com/b.png'', pf_body = ''More text''\<rparr>"

definition enquiry :: ContactForm where
  "enquiry = \<lparr>ct_name = ''Eve'', ct_email = ''eve@example.com'', ct_phone_number = ''555'',
              ct_message = ''Hi''\<rparr>"

definition december_25 :: pydate where
  "december_25 = \<lparr>year = 2023, month = 12, day = 25\<rparr>"

definition march_5 :: pydate where
  "march_5 = \<lparr>year = 2024, month = 3, day = 5\<rparr>"

definition keep_comments :: "nat \<Rightarrow> Comment list \<Rightarrow> Comment list" where
  "keep_comments pid cs = cs"

definition mail_ok :: "string \<Rightarrow> string option" where
  "mail_ok msg = None"

definition mail_down :: "string \<Rightarrow> string option" where
  "mail_down msg = Some ''SMTPServerDisconnected''"

section \<open>Basic facts\<close>

lemma find_None_image: "find (\<lambda>r. key r = k) rows = None \<longleftrightarrow> k \<notin> key ` set rows"
  by (auto simp: find_None_iff)

lemma get_or_404_absent: "k \<notin> key ` set rows \<Longrightarrow> get_or_404 key rows k = Inl (Abort 404)"
  by (simp add: get_or_404_def find_None_image[THEN iffD2])

lemma find_Some_key: "find (\<lambda>r. key r = k) rows = Some r \<Longrightarrow> key r = k \<and> r \<in> set rows"
  by (auto simp: find_Some_iff)

lemma get_or_404_found:
  "find (\<lambda>r. key r = k) rows = Some r \<Longrightarrow> get_or_404 key rows k = Inr r"
  by (simp add: get_or_404_def)

lemma admin_only_anonymous:
  "session_user_id s = None \<Longrightarrow> admin_only f s = Inl (AttributeError ''id'')"
  by (simp add: admin_only_def current_user_def)

lemma admin_only_forbidden:
  "current_user s = Inr (Authenticated u) \<Longrightarrow> user_id u \<noteq> 1 \<Longrightarrow> admin_only f s = Inl (Abort 403)"
  by (simp add: admin_only_def)

lemma admin_only_admin:
  "current_user s = Inr (Authenticated u) \<Longrightarrow> user_id u = 1 \<Longrightarrow> admin_only f s = f s"
  by (simp add: admin_only_def)

lemma find_app: "find P (xs @ ys) = (case find P xs of None \<Rightarrow> find P ys | Some x \<Rightarrow> Some x)"
  by (induction xs) simp_all

lemma flash_eq: "flash m c s = s\<lparr>flashes := flashes s @ [(c, m)]\<rparr>"
  by (simp add: flash_def)

lemma len_digit: "n < 10 \<Longrightarrow> length (str_nat n) = 1"
  by (simp add: str_nat.simps)

lemma len2: "10 \<le> n \<Longrightarrow> n < 100 \<Longrightarrow> length (str_nat n) = 2"
  by (subst str_nat.simps) (simp add: len_digit)

lemma len3: "100 \<le> n \<Longrightarrow> n < 1000 \<Longrightarrow> length (str_nat n) = 3"
  by (subst str_nat.simps) (simp add: len2)

lemma len4: "1000 \<le> n \<Longrightarrow> n < 10000 \<Longrightarrow> length (str_nat n) = 4"
  by (subst str_nat.simps) (simp add: len3)

lemma validate_submit [simp]: "validate_on_submit (submit f)"
  by (simp add: validate_on_submit_def submit_def)

lemma validate_fetch [simp]: "\<not> validate_on_submit (fetch f)"
  by (simp add: validate_on_submit_def fetch_def)

lemma form_submit [simp]: "form (submit f) = f"
  by (simp add: submit_def)

lemma current_user_blog:
  "current_user (blog None) = Inr AnonymousUserMixin"
  "current_user (blog (Some 1)) = Inr (Authenticated alice)"
  "current_user (blog (Some 2)) = Inr (Authenticated bob)"
  by (simp_all add: current_user_def load_user_def get_or_404_def blog_def alice_def bob_def)

lemma login_messages:
  "sublist ''email does not exist'' ''That email does not exist, please try again.''"
  "sublist ''incorrect'' ''Password incorrect, please try again.''"
  unfolding sublist_def
  by (rule exI [of _ "''That ''"], rule exI [of _ "'', please try again.''"], simp,
      rule exI [of _ "''Password ''"], rule exI [of _ "'', please try again.''"], simp)

lemma delete_post_body_result:
  "delete_post_body cascade pid s = Inr (r, s') \<Longrightarrow>
     r = Redirect Get_all_posts_ep \<and> posts s' = filter (\<lambda>p. post_id p \<noteq> pid) (posts s)"
proof -
  assume a: "delete_post_body cascade pid s = Inr (r, s')"
  show ?thesis
  proof (cases "find (\<lambda>p. post_id p = pid) (posts s)")
    case None
    with a show ?thesis by (simp add: delete_post_body_def get_or_404_def)
  next
    case (Some p)
    from find_Some_key [OF Some] have "post_id p = pid" by simp
    with a Some show ?thesis
      by (auto simp: delete_post_body_def get_or_404_def)
  qed
qed

lemma admin_only_result: "admin_only f s = Inr x \<Longrightarrow> f s = Inr x"
  by (simp add: admin_only_def split: sum.splits if_splits)


lemma filter_key_absent: "k \<notin> key ` set (filter (\<lambda>r. key r \<noteq> k) rows)"
  by (induction rows) simp_all



lemma find_map_update:
  "find (\<lambda>r. key r = k) rows = Some r \<Longrightarrow> key r' = k \<Longrightarrow>
     find (\<lambda>q. key q = k) (map (\<lambda>q. if key q = k then r' else q) rows) = Some r'"
  by (induction rows) (auto split: if_splits)

lemma method_submit [simp]: "http_method (submit f) = POST"
  by (simp add: submit_def)

lemma as_user_Inr: "as_user cu = Inr u \<longleftrightarrow> cu = Authenticated u"
  by (cases cu) auto

lemma edit_post_redirect:
  assumes "edit_post pid req s = Inr (Redirect ep, s')"
  shows "\<exists>p u. find (\<lambda>q. post_id q = pid) (posts s) = Some p
           \<and> validate_on_submit req \<and> current_user s = Inr (Authenticated u)"
proof (cases "find (\<lambda>q. post_id q = pid) (posts s)")
  case None
  with assms show ?thesis
    by (simp add: edit_post_def get_or_404_def)
next
  case (Some p)
  show ?thesis
  proof (cases "validate_on_submit req")
    case False
    with assms Some show ?thesis
      by (simp add: edit_post_def get_or_404_def Let_def)
  next
    case True
    with assms Some show ?thesis
      by (auto simp: edit_post_def get_or_404_def Let_def as_user_Inr
          split: sum.splits)
  qed
qed

lemma gravatar_url_default_eq:
  "gravatar_url_default = ''https://www.gravatar.com/avatar/?s=100&d=retro&r=g&f=False''"
  by (simp add: gravatar_url_default_def gravatar_url_def str_int_def str_bool_def str_nat.simps)

lemma show_post_render:
  "show_post k pid req s = Inr (Render pg, s') \<Longrightarrow> \<exists>p. pg = Post_html p gravatar_url_default"
  by (auto simp: show_post_def get_or_404_def Let_def
      split: option.splits sum.splits if_splits)

lemma strftime_example:
  "strftime_B_d_Y \<lparr>year = 2024, month = 3, day = 5\<rparr> = ''March 05, 2024''"
  "strftime_B_d_Y \<lparr>year = 2023, month = 12, day = 25\<rparr> = ''December 25, 2023''"
  by (simp_all add: strftime_B_d_Y_def month_name_def two_digits_def str_nat.simps)

lemma construct_msg_example:
  "construct_msg (Some ''F'') ''N'' ''E'' ''P'' ''M'' =
     ''Subject: Blog Website Contact '' @ [CHR 0x0A] @ ''From: noreply <F> ''
       @ [CHR 0x0A, CHR 0x0A, CHR 0x0A]
       @ ''                        You got a contact message '' @ [CHR 0x0A, CHR 0x0A]
       @ ''                        From: N '' @ [CHR 0x0A, CHR 0x0A]
       @ ''                        email: E '' @ [CHR 0x0A, CHR 0x0A]
       @ ''                        phone number: P '' @ [CHR 0x0A, CHR 0x0A]
       @ ''                        message: M''"
  by (simp add: construct_msg_def str_opt_def Let_def numeral_eq_Suc)

lemma str_nat_digit: "n < 10 \<Longrightarrow> str_nat n = [''0123456789'' ! n]"
  by (subst str_nat.simps) simp

lemma str_nat_step:
  "10 \<le> n \<Longrightarrow> str_nat n = str_nat (n div 10) @ [''0123456789'' ! (n mod 10)]"
  by (subst str_nat.simps) simp

lemma month_name_nth:
  assumes "1 \<le> m" and "m \<le> 12"
  shows "month_name m =
           [''January'', ''February'', ''March'', ''April'', ''May'', ''June'', ''July'',
            ''August'', ''September'', ''October'', ''November'', ''December''] ! (m - 1)"
proof -
  from assms have "m = 1 \<or> m = 2 \<or> m = 3 \<or> m = 4 \<or> m = 5 \<or> m = 6 \<or> m = 7 \<or> m = 8
             \<or> m = 9 \<or> m = 10 \<or> m = 11 \<or> m = 12"
    by arith
  then show ?thesis
    by (elim disjE) (simp_all add: month_name_def)
qed

lemma two_digits_eq:
  assumes "d < 100"
  shows "two_digits d = [''0123456789'' ! (d div 10), ''0123456789'' ! (d mod 10)]"
proof (cases "d < 10")
  case True
  then show ?thesis
    by (simp add: two_digits_def str_nat_digit)
next
  case False
  with assms have "d div 10 < 10" by simp
  with False show ?thesis
    by (simp add: two_digits_def str_nat_step str_nat_digit)
qed

lemma str_nat_four:
  assumes "1000 \<le> y" and "y \<le> 9999"
  shows "str_nat y =
           [''0123456789'' ! (y div 1000), ''0123456789'' ! (y div 100 mod 10),
            ''0123456789'' ! (y div 10 mod 10), ''0123456789'' ! (y mod 10)]"
proof -
  from assms have a: "10 \<le> y" "10 \<le> y div 10" "10 \<le> y div 10 div 10" "y div 10 div 10 div 10 < 10"
    by simp_all
  have b: "y div 10 div 10 = y div 100" "y div 10 div 10 div 10 = y div 1000"
    and c: "y div 100 div 10 = y div 1000"
    by (simp_all add: div_mult2_eq [symmetric])
  have "str_nat y =
          [''0123456789'' ! (y div 10 div 10 div 10), ''0123456789'' ! (y div 10 div 10 mod 10),
           ''0123456789'' ! (y div 10 mod 10), ''0123456789'' ! (y mod 10)]"
    using a by (simp add: str_nat_step [of y] str_nat_step [of "y div 10"]
        str_nat_step [of "y div 10 div 10"] str_nat_digit [of "y div 10 div 10 div 10"])
  then show ?thesis
    unfolding b(1) c by simp
qed

section \<open>Registration\<close>

text \<open>
  C2. For a valid registration submission: when a user with the submitted email exists, the
  handler redirects to the login page and only queues the warning, so the user table is
  unchanged. Otherwise it redirects to the post listing, and the state has one more user, made
  of the submitted email and name and of the string \<^verbatim>\<open>pbkdf2:sha256:iterations$salt$digest\<close>
  computed from a fresh 8-character salt and the submitted password; the session holds that
  user's id. The stored string begins with the method tag, so it differs from every plaintext
  that does not; and when the key given to the row is new, the identity of the session is the
  new user.
\<close>

theorem register_contract:
  assumes "validate_on_submit req"
  shows "(rf_email (form req) \<in> email ` set (users s) \<longrightarrow>
            register sec k req s =
              Inr (Redirect Login_ep,
                   s\<lparr>flashes := flashes s @
                      [(''message'', ''You've already signed up with that email, log in instead!'')]\<rparr>))
       \<and> (rf_email (form req) \<notin> email ` set (users s) \<longrightarrow>
            (\<exists>u. register sec k req s =
                   Inr (Redirect Get_all_posts_ep,
                        s\<lparr>users := users s @ [u], session_user_id := Some (user_id u)\<rparr>)
                \<and> u = \<lparr>user_id = k, email = rf_email (form req), name = rf_name (form req),
                        password = generate_password_hash sec (rf_password (form req))
                                     ''pbkdf2:sha256'' 8\<rparr>
                \<and> password u =
                    ''pbkdf2:sha256:'' @ str_nat (iterations sec) @ ''$'' @ gen_salt sec 8 @ ''$''
                      @ derive sec (''pbkdf2:sha256:'' @ str_nat (iterations sec)) (gen_salt sec 8)
                          (rf_password (form req))
                \<and> (\<not> prefix ''pbkdf2:sha256:'' (rf_password (form req)) \<longrightarrow>
                      password u \<noteq> rf_password (form req))
                \<and> (k \<notin> user_id ` set (users s) \<longrightarrow>
                      current_user (s\<lparr>users := users s @ [u],
                                      session_user_id := Some (user_id u)\<rparr>)
                        = Inr (Authenticated u))))"
proof (intro conjI impI)
  assume "rf_email (form req) \<in> email ` set (users s)"
  then have "find (\<lambda>u. email u = rf_email (form req)) (users s) \<noteq> None"
    by (simp add: find_None_image)
  then obtain u0 where "find (\<lambda>u. email u = rf_email (form req)) (users s) = Some u0"
    by auto
  then show "register sec k req s =
              Inr (Redirect Login_ep,
                   s\<lparr>flashes := flashes s @
                      [(''message'', ''You've already signed up with that email, log in instead!'')]\<rparr>)"
    using assms by (simp add: register_def flash_eq)
next
  assume absent: "rf_email (form req) \<notin> email ` set (users s)"
  then have none: "find (\<lambda>u. email u = rf_email (form req)) (users s) = None"
    by (simp add: find_None_image)
  define u where "u = \<lparr>user_id = k, email = rf_email (form req), name = rf_name (form req),
                        password = generate_password_hash sec (rf_password (form req))
                                     ''pbkdf2:sha256'' 8\<rparr>"
  have pw: "password u =
                    ''pbkdf2:sha256:'' @ str_nat (iterations sec) @ ''$'' @ gen_salt sec 8 @ ''$''
                      @ derive sec (''pbkdf2:sha256:'' @ str_nat (iterations sec)) (gen_salt sec 8)
                          (rf_password (form req))"
    by (simp add: u_def generate_password_hash_def Let_def)
  have r: "register sec k req s =
                   Inr (Redirect Get_all_posts_ep,
                        s\<lparr>users := users s @ [u], session_user_id := Some (user_id u)\<rparr>)"
    using assms none by (simp add: register_def Let_def login_user_def u_def)
  have np: "\<not> prefix ''pbkdf2:sha256:'' (rf_password (form req)) \<longrightarrow>
                      password u \<noteq> rf_password (form req)"
  proof (intro impI notI)
    assume a: "\<not> prefix ''pbkdf2:sha256:'' (rf_password (form req))"
       and b: "password u = rf_password (form req)"
    have "prefix ''pbkdf2:sha256:'' (password u)"
      unfolding pw by (simp add: prefix_def)
    with a b show False by simp
  qed
  have cu: "k \<notin> user_id ` set (users s) \<longrightarrow>
                      current_user (s\<lparr>users := users s @ [u],
                                      session_user_id := Some (user_id u)\<rparr>)
                        = Inr (Authenticated u)"
  proof
    assume "k \<notin> user_id ` set (users s)"
    then have "find (\<lambda>r. user_id r = k) (users s) = None"
      by (simp add: find_None_image)
    then have "find (\<lambda>r. user_id r = k) (users s @ [u]) = Some u"
      by (simp add: find_app u_def)
    then show "current_user (s\<lparr>users := users s @ [u],
                                      session_user_id := Some (user_id u)\<rparr>)
                        = Inr (Authenticated u)"
      by (simp add: current_user_def load_user_def get_or_404_def u_def)
  qed
  show "\<exists>u. register sec k req s =
                   Inr (Redirect Get_all_posts_ep,
                        s\<lparr>users := users s @ [u], session_user_id := Some (user_id u)\<rparr>)
                \<and> u = \<lparr>user_id = k, email = rf_email (form req), name = rf_name (form req),
                        password = generate_password_hash sec (rf_password (form req))
                                     ''pbkdf2:sha256'' 8\<rparr>
                \<and> password u =
                    ''pbkdf2:sha256:'' @ str_nat (iterations sec) @ ''$'' @ gen_salt sec 8 @ ''$''
                      @ derive sec (''pbkdf2:sha256:'' @ str_nat (iterations sec)) (gen_salt sec 8)
                          (rf_password (form req))
                \<and> (\<not> prefix ''pbkdf2:sha256:'' (rf_password (form req)) \<longrightarrow>
                      password u \<noteq> rf_password (form req))
                \<and> (k \<notin> user_id ` set (users s) \<longrightarrow>
                      current_user (s\<lparr>users := users s @ [u],
                                      session_user_id := Some (user_id u)\<rparr>)
                        = Inr (Authenticated u))"
    using r pw np cu u_def by blast
qed


theorem register_contract_witness:
  "validate_on_submit (submit bob_again_form)
   \<and> rf_email (form (submit bob_again_form)) \<in> email ` set (users (blog None))
   \<and> register demo_security 3 (submit bob_again_form) (blog None) =
       Inr (Redirect Login_ep,
            (blog None)\<lparr>flashes :=
               [(''message'', ''You've already signed up with that email, log in instead!'')]\<rparr>)
   \<and> validate_on_submit (submit carol_form)
   \<and> rf_email (form (submit carol_form)) \<notin> email ` set (users (blog None))
   \<and> \<not> prefix ''pbkdf2:sha256:'' (rf_password (form (submit carol_form)))
   \<and> 3 \<notin> user_id ` set (users (blog None))
   \<and> register demo_security 3 (submit carol_form) (blog None) =
       Inr (Redirect Get_all_posts_ep,
            (blog None)\<lparr>users := [alice, bob,
                \<lparr>user_id = 3, email = ''carol@example.com'', name = ''Carol'',
                 password = ''pbkdf2:sha256:600000$ssssssss$cba''\<rparr>],
              session_user_id := Some 3\<rparr>)"
proof -
  have v1: "validate_on_submit (submit bob_again_form)"
    and v2: "validate_on_submit (submit carol_form)"
    by (simp_all add: validate_on_submit_def submit_def)
  have salt: "replicate 8 (CHR ''s'') = ''ssssssss''"
    by (simp add: numeral_eq_Suc)
  show ?thesis
    using v1 v2 register_contract [OF v1, of "blog None" demo_security 3]
      register_contract [OF v2, of "blog None" demo_security 3]
    by (simp add: submit_def bob_again_form_def carol_form_def blog_def alice_def bob_def
          demo_security_def generate_password_hash_def str_nat.simps prefix_def salt)
qed

section \<open>Login\<close>

text \<open>
  C3. For a valid login submission: when no user has the submitted email, the handler queues
  the message \<^verbatim>\<open>That email does not exist, please try again.\<close> and redirects to the login
  page; when the user found by that email has a stored hash the submitted password does not
  verify against, it queues \<^verbatim>\<open>Password incorrect, please try again.\<close> and redirects to the
  login page. In both cases the state differs from the one before only by the queued message,
  so the session is as it was. Otherwise the session is set to the id of the user found and the
  handler redirects to the post listing.
\<close>

theorem login_contract:
  assumes "validate_on_submit req"
  shows "(lf_email (form req) \<notin> email ` set (users s) \<longrightarrow>
            login sec req s =
              Inr (Redirect Login_ep,
                   s\<lparr>flashes := flashes s @
                      [(''message'', ''That email does not exist, please try again.'')]\<rparr>))
       \<and> (\<forall>u. find (\<lambda>u. email u = lf_email (form req)) (users s) = Some u
               \<and> \<not> check_password_hash sec (password u) (lf_password (form req)) \<longrightarrow>
            login sec req s =
              Inr (Redirect Login_ep,
                   s\<lparr>flashes := flashes s @
                      [(''message'', ''Password incorrect, please try again.'')]\<rparr>))
       \<and> (\<forall>u. find (\<lambda>u. email u = lf_email (form req)) (users s) = Some u
               \<and> check_password_hash sec (password u) (lf_password (form req)) \<longrightarrow>
            login sec req s =
              Inr (Redirect Get_all_posts_ep, s\<lparr>session_user_id := Some (user_id u)\<rparr>))"
  using assms
  by (simp add: login_def flash_eq login_user_def find_None_image [THEN iffD2])

theorem login_contract_witness:
  "validate_on_submit (submit dave_login)
   \<and> lf_email (form (submit dave_login)) \<notin> email ` set (users (blog None))
   \<and> login demo_security (submit dave_login) (blog None) =
       Inr (Redirect Login_ep,
            (blog None)\<lparr>flashes :=
               [(''message'', ''That email does not exist, please try again.'')]\<rparr>)
   \<and> find (\<lambda>u. email u = lf_email (form (submit bob_wrong_login))) (users (blog None)) = Some bob
   \<and> \<not> check_password_hash demo_security (password bob) (lf_password (form (submit bob_wrong_login)))
   \<and> login demo_security (submit bob_wrong_login) (blog None) =
       Inr (Redirect Login_ep,
            (blog None)\<lparr>flashes := [(''message'', ''Password incorrect, please try again.'')]\<rparr>)
   \<and> find (\<lambda>u. email u = lf_email (form (submit bob_login))) (users (blog None)) = Some bob
   \<and> check_password_hash demo_security (password bob) (lf_password (form (submit bob_login)))
   \<and> login demo_security (submit bob_login) (blog None) =
       Inr (Redirect Get_all_posts_ep, (blog None)\<lparr>session_user_id := Some 2\<rparr>)"
  using login_contract [of "submit dave_login" "blog None" demo_security]
    login_contract [of "submit bob_wrong_login" "blog None" demo_security]
    login_contract [of "submit bob_login" "blog None" demo_security]
  by (simp add: dave_login_def bob_wrong_login_def bob_login_def blog_def alice_def bob_def
        demo_security_def)

section \<open>Post page and comments\<close>

text \<open>
  C4. For a valid comment submission on an existing post: without a user id in the session
  the handler queues the login prompt and redirects to the login page, and the state differs
  only by that message, so the comment table is unchanged. With an authenticated identity the
  comment table has exactly one more row, whose author is that identity and whose parent is
  the post, and the post page is rendered.
\<close>

theorem show_post_comment:
  assumes "find (\<lambda>p. post_id p = pid) (posts s) = Some p"
    and "validate_on_submit req"
  shows "(session_user_id s = None \<longrightarrow>
            show_post k pid req s =
              Inr (Redirect Login_ep,
                   s\<lparr>flashes := flashes s @
                      [(''message'', ''You need to login or register to comment.'')]\<rparr>))
       \<and> (\<forall>u. current_user s = Inr (Authenticated u) \<longrightarrow>
            show_post k pid req s =
              Inr (Render (Post_html p gravatar_url_default),
                   s\<lparr>comments := comments s @
                      [\<lparr>comment_id = k, comment_text = cf_comment_text (form req),
                        comment_author = user_id u, parent_post = Some pid\<rparr>]\<rparr>))"
  using assms find_Some_key [OF assms(1)]
  by (simp add: show_post_def get_or_404_def current_user_def flash_eq)

theorem show_post_comment_witness:
  "find (\<lambda>p. post_id p = 1) (posts (blog None)) = Some hello_post
   \<and> validate_on_submit (submit nice_comment)
   \<and> session_user_id (blog None) = None
   \<and> show_post 7 1 (submit nice_comment) (blog None) =
       Inr (Redirect Login_ep,
            (blog None)\<lparr>flashes := [(''message'', ''You need to login or register to comment.'')]\<rparr>)
   \<and> current_user (blog (Some 2)) = Inr (Authenticated bob)
   \<and> show_post 7 1 (submit nice_comment) (blog (Some 2)) =
       Inr (Render (Post_html hello_post gravatar_url_default),
            (blog (Some 2))\<lparr>comments :=
               [\<lparr>comment_id = 7, comment_text = ''Nice'', comment_author = 2,
                 parent_post = Some 1\<rparr>]\<rparr>)"
proof -
  have f: "find (\<lambda>p. post_id p = 1) (posts (blog sess)) = Some hello_post" for sess
    by (simp add: blog_def hello_post_def)
  show ?thesis
    using show_post_comment [OF f validate_submit, of None 7 nice_comment]
      show_post_comment [OF f validate_submit, of "Some 2" 7 nice_comment]
      current_user_blog f
    by (simp add: blog_def nice_comment_def bob_def)
qed


section \<open>The admin guard on create and delete\<close>

text \<open>
  C1. For an identity loaded from the session the guard answers 403 when its id is not 1 and
  runs the wrapped route when it is 1 (lemmas \<open>admin_only_forbidden\<close> and
  \<open>admin_only_admin\<close>, for every wrapped function). For an anonymous caller, however,
  reading \<^verbatim>\<open>current_user.id\<close> fails: the guard raises an AttributeError, which is answered
  with status 500 and not with 403. The wrapped route is not run in that case either.
\<close>

theorem admin_only_anonymous_crash:
  "admin_only f (blog None) = Inl (AttributeError ''id'')
   \<and> add_new_post march_5 2 (submit draft) (blog None) = Inl (AttributeError ''id'')
   \<and> delete_post keep_comments 1 (blog None) = Inl (AttributeError ''id'')
   \<and> status_code (AttributeError ''id'') = 500"
  by (simp add: add_new_post_def delete_post_def admin_only_def current_user_blog)

section \<open>Missing and deleted posts\<close>

text \<open>
  C5, as stated: requesting \<^verbatim>\<open>/delete/<id>\<close> for an id that no post has is answered with
  404. The guard of the route runs before the lookup: a logged-in user other than the admin
  asking to delete a post that does not exist is answered with 403.
\<close>

theorem delete_non_admin_counterexample:
  "5 \<notin> post_id ` set (posts (blog (Some 2)))
   \<and> current_user (blog (Some 2)) = Inr (Authenticated bob)
   \<and> delete_post keep_comments 5 (blog (Some 2)) = Inl (Abort 403)
   \<and> delete_post keep_comments 5 (blog (Some 2)) \<noteq> Inl (Abort 404)"
proof -
  have "5 \<notin> post_id ` set (posts (blog (Some 2)))"
    by (simp add: blog_def hello_post_def)
  moreover have "delete_post keep_comments 5 (blog (Some 2)) = Inl (Abort 403)"
    by (simp add: delete_post_def admin_only_def current_user_blog bob_def)
  ultimately show ?thesis
    by (simp add: current_user_blog)
qed

text \<open>
  C5, amended. The post page answers 404 for an id that no post has, whoever asks. The delete
  route answers 404 for such an id when the caller is the admin, and 403 to any other logged-in
  identity, whatever the id. When the admin deletes an existing post, the rows with that id are
  removed and the response is a redirect to the listing. Whenever the delete route returns a
  response, it is that redirect, no post of the resulting store has the id, and every request
  to the post page for that id on that store is answered with 404.
\<close>

theorem missing_post_404:
  "(pid \<notin> post_id ` set (posts s) \<longrightarrow> show_post k pid req s = Inl (Abort 404))
   \<and> (\<forall>u. pid \<notin> post_id ` set (posts s) \<and> current_user s = Inr (Authenticated u)
            \<and> user_id u = 1 \<longrightarrow> delete_post cascade pid s = Inl (Abort 404))
   \<and> (\<forall>u. current_user s = Inr (Authenticated u) \<and> user_id u \<noteq> 1 \<longrightarrow>
            delete_post cascade pid s = Inl (Abort 403))
   \<and> (\<forall>u. pid \<in> post_id ` set (posts s) \<and> current_user s = Inr (Authenticated u)
            \<and> user_id u = 1 \<longrightarrow>
          delete_post cascade pid s =
            Inr (Redirect Get_all_posts_ep,
                 s\<lparr>posts := filter (\<lambda>p. post_id p \<noteq> pid) (posts s),
                   comments := cascade pid (comments s)\<rparr>))
   \<and> (\<forall>r s'. delete_post cascade pid s = Inr (r, s') \<longrightarrow>
          r = Redirect Get_all_posts_ep \<and> pid \<notin> post_id ` set (posts s')
          \<and> (\<forall>k' req'. show_post k' pid req' s' = Inl (Abort 404)))"
proof -
  have absent: "show_post k' pid req' t = Inl (Abort 404)"
    if "pid \<notin> post_id ` set (posts t)" for k' req' t
    using that by (simp add: show_post_def get_or_404_absent)
  have c2: "delete_post cascade pid s = Inl (Abort 404)"
    if "pid \<notin> post_id ` set (posts s) \<and> current_user s = Inr (Authenticated u) \<and> user_id u = 1"
    for u
    using that
    by (simp add: delete_post_def admin_only_admin delete_post_body_def get_or_404_absent)
  have c3: "delete_post cascade pid s = Inl (Abort 403)"
    if "current_user s = Inr (Authenticated u) \<and> user_id u \<noteq> 1" for u
    using that by (simp add: delete_post_def admin_only_forbidden)
  have c4: "delete_post cascade pid s =
            Inr (Redirect Get_all_posts_ep,
                 s\<lparr>posts := filter (\<lambda>p. post_id p \<noteq> pid) (posts s),
                   comments := cascade pid (comments s)\<rparr>)"
    if a: "pid \<in> post_id ` set (posts s) \<and> current_user s = Inr (Authenticated u) \<and> user_id u = 1"
    for u
  proof -
    from a have "find (\<lambda>p. post_id p = pid) (posts s) \<noteq> None"
      by (simp add: find_None_image)
    then obtain p where p: "find (\<lambda>p. post_id p = pid) (posts s) = Some p"
      by blast
    from find_Some_key [OF p] have "post_id p = pid" by simp
    with a p show ?thesis
      by (simp add: delete_post_def admin_only_admin delete_post_body_def get_or_404_def)
  qed
  have c5: "r = Redirect Get_all_posts_ep \<and> pid \<notin> post_id ` set (posts s')
          \<and> (\<forall>k' req'. show_post k' pid req' s' = Inl (Abort 404))"
    if d: "delete_post cascade pid s = Inr (r, s')" for r s'
  proof -
    from d have "delete_post_body cascade pid s = Inr (r, s')"
      unfolding delete_post_def by (rule admin_only_result)
    from delete_post_body_result [OF this]
    have r: "r = Redirect Get_all_posts_ep"
      and ps: "posts s' = filter (\<lambda>p. post_id p \<noteq> pid) (posts s)"
      by simp_all
    have gone: "pid \<notin> post_id ` set (posts s')"
      unfolding ps by (rule filter_key_absent)
    from r gone absent [OF gone] show ?thesis by simp
  qed
  show ?thesis
  proof (intro conjI allI impI)
    show "show_post k pid req s = Inl (Abort 404)" if "pid \<notin> post_id ` set (posts s)"
      using that by (rule absent)
    show "delete_post cascade pid s = Inl (Abort 404)"
      if "pid \<notin> post_id ` set (posts s) \<and> current_user s = Inr (Authenticated u) \<and> user_id u = 1"
      for u using that by (rule c2)
    show "delete_post cascade pid s = Inl (Abort 403)"
      if "current_user s = Inr (Authenticated u) \<and> user_id u \<noteq> 1" for u
      using that by (rule c3)
    show "delete_post cascade pid s =
            Inr (Redirect Get_all_posts_ep,
                 s\<lparr>posts := filter (\<lambda>p. post_id p \<noteq> pid) (posts s),
                   comments := cascade pid (comments s)\<rparr>)"
      if "pid \<in> post_id ` set (posts s) \<and> current_user s = Inr (Authenticated u) \<and> user_id u = 1"
      for u using that by (rule c4)
    show "r = Redirect Get_all_posts_ep" if "delete_post cascade pid s = Inr (r, s')" for r s'
      using c5 [OF that] by simp
    show "pid \<notin> post_id ` set (posts s')" if "delete_post cascade pid s = Inr (r, s')" for r s'
      using c5 [OF that] by simp
    show "show_post k' pid req' s' = Inl (Abort 404)"
      if "delete_post cascade pid s = Inr (r, s')" for r s' k' req'
      using c5 [OF that] by simp
  qed
qed


theorem missing_post_404_witness:
  "5 \<notin> post_id ` set (posts (blog None))
   \<and> show_post 7 5 (fetch nice_comment) (blog None) = Inl (Abort 404)
   \<and> 5 \<notin> post_id ` set (posts (blog (Some 1)))
   \<and> current_user (blog (Some 1)) = Inr (Authenticated alice) \<and> user_id alice = 1
   \<and> delete_post keep_comments 5 (blog (Some 1)) = Inl (Abort 404)
   \<and> current_user (blog (Some 2)) = Inr (Authenticated bob) \<and> user_id bob \<noteq> 1
   \<and> delete_post keep_comments 5 (blog (Some 2)) = Inl (Abort 403)
   \<and> 1 \<in> post_id ` set (posts (blog (Some 1)))
   \<and> delete_post keep_comments 1 (blog (Some 1)) =
       Inr (Redirect Get_all_posts_ep, (blog (Some 1))\<lparr>posts := []\<rparr>)
   \<and> 1 \<notin> post_id ` set (posts ((blog (Some 1))\<lparr>posts := []\<rparr>))
   \<and> show_post 7 1 (fetch nice_comment) ((blog (Some 1))\<lparr>posts := []\<rparr>) = Inl (Abort 404)"
proof -
  note a = missing_post_404 [of 5 "blog None" 7 "fetch nice_comment" keep_comments]
  note b = missing_post_404 [of 5 "blog (Some 1)" 7 "fetch nice_comment" keep_comments]
  note c = missing_post_404 [of 5 "blog (Some 2)" 7 "fetch nice_comment" keep_comments]
  note d = missing_post_404 [of 1 "blog (Some 1)" 7 "fetch nice_comment" keep_comments]
  have n5: "5 \<notin> post_id ` set (posts (blog sess))" for sess
    by (simp add: blog_def hello_post_def)
  have i1: "1 \<in> post_id ` set (posts (blog (Some 1)))"
    by (simp add: blog_def hello_post_def)
  have ids: "user_id alice = 1" "user_id bob \<noteq> 1"
    by (simp_all add: alice_def bob_def)
  have w1: "show_post 7 5 (fetch nice_comment) (blog None) = Inl (Abort 404)"
    using a [THEN conjunct1] n5 by (rule mp)
  have w2: "delete_post keep_comments 5 (blog (Some 1)) = Inl (Abort 404)"
    using b [THEN conjunct2, THEN conjunct1, rule_format, of alice] n5 current_user_blog(2) ids(1)
    by blast
  have w3: "delete_post keep_comments 5 (blog (Some 2)) = Inl (Abort 403)"
    using c [THEN conjunct2, THEN conjunct2, THEN conjunct1, rule_format, of bob]
      current_user_blog(3) ids(2)
    by blast
  have "delete_post keep_comments 1 (blog (Some 1)) =
          Inr (Redirect Get_all_posts_ep,
               (blog (Some 1))\<lparr>posts := filter (\<lambda>p. post_id p \<noteq> 1) (posts (blog (Some 1))),
                 comments := keep_comments 1 (comments (blog (Some 1)))\<rparr>)"
    using d [THEN conjunct2, THEN conjunct2, THEN conjunct2, THEN conjunct1, rule_format, of alice]
      i1 current_user_blog(2) ids(1)
    by blast
  then have w4: "delete_post keep_comments 1 (blog (Some 1)) =
       Inr (Redirect Get_all_posts_ep, (blog (Some 1))\<lparr>posts := []\<rparr>)"
    by (simp add: blog_def hello_post_def keep_comments_def)
  from d [THEN conjunct2, THEN conjunct2, THEN conjunct2, THEN conjunct2, rule_format, OF w4]
  have w5: "1 \<notin> post_id ` set (posts ((blog (Some 1))\<lparr>posts := []\<rparr>))"
    and w6: "show_post 7 1 (fetch nice_comment) ((blog (Some 1))\<lparr>posts := []\<rparr>) = Inl (Abort 404)"
    by simp_all
  from n5 [of None] n5 [of "Some 1"] w1 w2 w3 i1 w4 w5 w6 ids current_user_blog
  show ?thesis by simp
qed

section \<open>Creating a post\<close>

text \<open>
  C6. For a valid create-post submission by the admin, on any calendar date with a four-digit
  year, the response is a redirect to the post listing and the store has one more post, made of
  the submitted fields, with the current identity as author. Its date is written out here
  without the functions of the model: the English name of the month, a space, the two decimal
  digits of the day (tens, then units), a comma and a space, and the four decimal digits of the
  year.
\<close>

theorem add_new_post_contract:
  assumes "validate_on_submit req"
    and "current_user s = Inr (Authenticated u)"
    and "user_id u = 1"
    and "1 \<le> month today" and "month today \<le> 12"
    and "1 \<le> day today" and "day today \<le> 31"
    and "1000 \<le> year today" and "year today \<le> 9999"
  shows "add_new_post today k req s =
           Inr (Redirect Get_all_posts_ep,
                s\<lparr>posts := posts s @
                   [\<lparr>post_id = k, title = pf_title (form req),
                     subtitle = pf_subtitle (form req), body = pf_body (form req),
                     img_url = pf_img_url (form req), author = user_id u,
                     date =
                       [''January'', ''February'', ''March'', ''April'', ''May'', ''June'',
                        ''July'', ''August'', ''September'', ''October'', ''November'',
                        ''December''] ! (month today - 1)
                       @ '' ''
                       @ [''0123456789'' ! (day today div 10),
                          ''0123456789'' ! (day today mod 10)]
                       @ '', ''
                       @ [''0123456789'' ! (year today div 1000),
                          ''0123456789'' ! (year today div 100 mod 10),
                          ''0123456789'' ! (year today div 10 mod 10),
                          ''0123456789'' ! (year today mod 10)]\<rparr>]\<rparr>)"
proof -
  have m: "month_name (month today) =
           [''January'', ''February'', ''March'', ''April'', ''May'', ''June'', ''July'',
            ''August'', ''September'', ''October'', ''November'', ''December'']
             ! (month today - 1)"
    using assms(4,5) by (rule month_name_nth)
  from assms(7) have "day today < 100" by simp
  then have d: "two_digits (day today) =
      [''0123456789'' ! (day today div 10), ''0123456789'' ! (day today mod 10)]"
    by (rule two_digits_eq)
  have y: "str_nat (year today) =
           [''0123456789'' ! (year today div 1000), ''0123456789'' ! (year today div 100 mod 10),
            ''0123456789'' ! (year today div 10 mod 10), ''0123456789'' ! (year today mod 10)]"
    using assms(8,9) by (rule str_nat_four)
  have "add_new_post today k req s =
           Inr (Redirect Get_all_posts_ep,
                s\<lparr>posts := posts s @
                   [\<lparr>post_id = k, title = pf_title (form req),
                     subtitle = pf_subtitle (form req), body = pf_body (form req),
                     img_url = pf_img_url (form req), author = user_id u,
                     date = month_name (month today) @ '' '' @ two_digits (day today)
                              @ '', '' @ str_nat (year today)\<rparr>]\<rparr>)"
    using assms(1-3)
    by (simp add: add_new_post_def admin_only_def add_new_post_body_def strftime_B_d_Y_def)
  then show ?thesis
    unfolding m d y by simp
qed

theorem add_new_post_contract_witness:
  "validate_on_submit (submit draft)
   \<and> current_user (blog (Some 1)) = Inr (Authenticated alice) \<and> user_id alice = 1
   \<and> 1 \<le> month march_5 \<and> month march_5 \<le> 12 \<and> 1 \<le> day march_5 \<and> day march_5 \<le> 31
   \<and> 1000 \<le> year march_5 \<and> year march_5 \<le> 9999
   \<and> add_new_post march_5 2 (submit draft) (blog (Some 1)) =
       Inr (Redirect Get_all_posts_ep,
            (blog (Some 1))\<lparr>posts := [hello_post,
               \<lparr>post_id = 2, title = ''News'', subtitle = ''Second post'', body = ''More text'',
                img_url = ''https://example.com/b.png'', author = 1,
                date = ''March 05, 2024''\<rparr>]\<rparr>)
   \<and> 1 \<le> month december_25 \<and> month december_25 \<le> 12
   \<and> 1 \<le> day december_25 \<and> day december_25 \<le> 31
   \<and> 1000 \<le> year december_25 \<and> year december_25 \<le> 9999
   \<and> add_new_post december_25 2 (submit draft) (blog (Some 1)) =
       Inr (Redirect Get_all_posts_ep,
            (blog (Some 1))\<lparr>posts := [hello_post,
               \<lparr>post_id = 2, title = ''News'', subtitle = ''Second post'', body = ''More text'',
                img_url = ''https://example.com/b.png'', author = 1,
                date = ''December 25, 2023''\<rparr>]\<rparr>)"
proof -
  have ids: "user_id alice = 1"
    by (simp add: alice_def)
  have a: "1 \<le> month march_5" "month march_5 \<le> 12" "1 \<le> day march_5" "day march_5 \<le> 31"
    "1000 \<le> year march_5" "year march_5 \<le> 9999"
    by (simp_all add: march_5_def)
  have b: "1 \<le> month december_25" "month december_25 \<le> 12" "1 \<le> day december_25"
    "day december_25 \<le> 31" "1000 \<le> year december_25" "year december_25 \<le> 9999"
    by (simp_all add: december_25_def)
  have 1: "add_new_post march_5 2 (submit draft) (blog (Some 1)) =
       Inr (Redirect Get_all_posts_ep,
            (blog (Some 1))\<lparr>posts := [hello_post,
               \<lparr>post_id = 2, title = ''News'', subtitle = ''Second post'', body = ''More text'',
                img_url = ''https://example.com/b.png'', author = 1,
                date = ''March 05, 2024''\<rparr>]\<rparr>)"
    unfolding add_new_post_contract [OF validate_submit current_user_blog(2) ids a, of 2 draft]
    by (simp add: blog_def ids draft_def march_5_def)
  have 2: "add_new_post december_25 2 (submit draft) (blog (Some 1)) =
       Inr (Redirect Get_all_posts_ep,
            (blog (Some 1))\<lparr>posts := [hello_post,
               \<lparr>post_id = 2, title = ''News'', subtitle = ''Second post'', body = ''More text'',
                img_url = ''https://example.com/b.png'', author = 1,
                date = ''December 25, 2023''\<rparr>]\<rparr>)"
    unfolding add_new_post_contract [OF validate_submit current_user_blog(2) ids b, of 2 draft]
    by (simp add: blog_def ids draft_def december_25_def)
  from 1 2 a b ids current_user_blog(2) show ?thesis
    by simp
qed

section \<open>Editing a post\<close>

text \<open>
  C7, as stated: every valid edit submission for an existing post overwrites the post and is
  answered with a redirect to the post. The route is not guarded, and a valid submission by an
  anonymous caller fails at \<^verbatim>\<open>post.author = current_user\<close>: the anonymous object is not a
  User row, the request ends with an error, and nothing is written.
\<close>

theorem edit_anonymous_counterexample:
  "validate_on_submit (submit draft)
   \<and> 1 \<in> post_id ` set (posts (blog None))
   \<and> session_user_id (blog None) = None
   \<and> edit_post 1 (submit draft) (blog None) = Inl (AttributeError ''_sa_instance_state'')"
proof -
  have f: "find (\<lambda>q. post_id q = 1) (posts (blog None)) = Some hello_post"
    by (simp add: blog_def hello_post_def)
  have "1 \<in> post_id ` set (posts (blog None))"
    by (simp add: blog_def hello_post_def)
  moreover have "session_user_id (blog None) = None"
    by (simp add: blog_def)
  moreover have "edit_post 1 (submit draft) (blog None) = Inl (AttributeError ''_sa_instance_state'')"
    using f by (simp add: edit_post_def get_or_404_def current_user_blog Let_def)
  ultimately show ?thesis by simp
qed

text \<open>
  C7, amended. For every valid edit submission for an existing post made while an identity is
  logged in, the response is a redirect to that post's detail view, and the store differs from
  the one before only in that post: its title, subtitle, image URL and body are the submitted
  values and its author is the logged-in identity, whoever the author was. Looking the post up
  afterwards gives the rewritten row.
\<close>

theorem edit_post_contract:
  assumes "find (\<lambda>q. post_id q = pid) (posts s) = Some p"
    and "validate_on_submit req"
    and "current_user s = Inr (Authenticated u)"
  shows "edit_post pid req s =
           Inr (Redirect (Show_post_ep pid),
                s\<lparr>posts :=
                    map (\<lambda>q. if post_id q = pid
                              then p\<lparr>title := pf_title (form req),
                                     subtitle := pf_subtitle (form req),
                                     img_url := pf_img_url (form req),
                                     author := user_id u,
                                     body := pf_body (form req)\<rparr>
                              else q) (posts s)\<rparr>)
       \<and> find (\<lambda>q. post_id q = pid)
            (map (\<lambda>q. if post_id q = pid
                       then p\<lparr>title := pf_title (form req),
                              subtitle := pf_subtitle (form req),
                              img_url := pf_img_url (form req),
                              author := user_id u,
                              body := pf_body (form req)\<rparr>
                       else q) (posts s))
           = Some (p\<lparr>title := pf_title (form req), subtitle := pf_subtitle (form req),
                     img_url := pf_img_url (form req), author := user_id u,
                     body := pf_body (form req)\<rparr>)"
proof
  from find_Some_key [OF assms(1)] have k: "post_id p = pid" by simp
  from assms(2) have m: "http_method req = POST"
    by (simp add: validate_on_submit_def)
  show "edit_post pid req s =
           Inr (Redirect (Show_post_ep pid),
                s\<lparr>posts :=
                    map (\<lambda>q. if post_id q = pid
                              then p\<lparr>title := pf_title (form req),
                                     subtitle := pf_subtitle (form req),
                                     img_url := pf_img_url (form req),
                                     author := user_id u,
                                     body := pf_body (form req)\<rparr>
                              else q) (posts s)\<rparr>)"
    using assms k m by (simp add: edit_post_def get_or_404_def Let_def)
  show "find (\<lambda>q. post_id q = pid)
            (map (\<lambda>q. if post_id q = pid
                       then p\<lparr>title := pf_title (form req),
                              subtitle := pf_subtitle (form req),
                              img_url := pf_img_url (form req),
                              author := user_id u,
                              body := pf_body (form req)\<rparr>
                       else q) (posts s))
           = Some (p\<lparr>title := pf_title (form req), subtitle := pf_subtitle (form req),
                     img_url := pf_img_url (form req), author := user_id u,
                     body := pf_body (form req)\<rparr>)"
    by (rule find_map_update [OF assms(1)]) (simp add: k)
qed

theorem edit_post_contract_witness:
  "find (\<lambda>q. post_id q = 1) (posts (blog (Some 2))) = Some hello_post
   \<and> validate_on_submit (submit draft)
   \<and> current_user (blog (Some 2)) = Inr (Authenticated bob)
   \<and> author hello_post \<noteq> user_id bob
   \<and> edit_post 1 (submit draft) (blog (Some 2)) =
       Inr (Redirect (Show_post_ep 1),
            (blog (Some 2))\<lparr>posts :=
               [\<lparr>post_id = 1, title = ''News'', subtitle = ''Second post'', body = ''More text'',
                 img_url = ''https://example.com/b.png'', author = 2,
                 date = ''March 05, 2024''\<rparr>]\<rparr>)"
proof -
  have f: "find (\<lambda>q. post_id q = 1) (posts (blog (Some 2))) = Some hello_post"
    by (simp add: blog_def hello_post_def)
  note t = edit_post_contract [OF f validate_submit current_user_blog(3), of draft,
      THEN conjunct1]
  have "edit_post 1 (submit draft) (blog (Some 2)) =
       Inr (Redirect (Show_post_ep 1),
            (blog (Some 2))\<lparr>posts :=
               [\<lparr>post_id = 1, title = ''News'', subtitle = ''Second post'', body = ''More text'',
                 img_url = ''https://example.com/b.png'', author = 2,
                 date = ''March 05, 2024''\<rparr>]\<rparr>)"
    unfolding t by (simp add: blog_def hello_post_def draft_def bob_def)
  with f current_user_blog(3) show ?thesis
    by (simp add: hello_post_def bob_def)
qed

text \<open>
  C10. Whenever the edit route answers with a redirect, the post with the requested id exists
  before and after, and the row after differs from the row before at most in title, subtitle,
  image URL, author and body: its id and its date are the original ones. The other tables, the
  session and the flashed messages are unchanged.
\<close>

theorem edit_post_frame:
  assumes "edit_post pid req s = Inr (Redirect ep, s')"
  shows "\<exists>p p'. find (\<lambda>q. post_id q = pid) (posts s) = Some p
           \<and> find (\<lambda>q. post_id q = pid) (posts s') = Some p'
           \<and> post_id p' = post_id p \<and> date p' = date p
           \<and> p' = p\<lparr>title := title p', subtitle := subtitle p', img_url := img_url p',
                     author := author p', body := body p'\<rparr>
           \<and> users s' = users s \<and> comments s' = comments s
           \<and> session_user_id s' = session_user_id s \<and> flashes s' = flashes s"
proof -
  from edit_post_redirect [OF assms] obtain p u
    where p: "find (\<lambda>q. post_id q = pid) (posts s) = Some p"
      and v: "validate_on_submit req"
      and u: "current_user s = Inr (Authenticated u)"
    by blast
  define p' where "p' = p\<lparr>title := pf_title (form req), subtitle := pf_subtitle (form req),
                          img_url := pf_img_url (form req), author := user_id u,
                          body := pf_body (form req)\<rparr>"
  from find_Some_key [OF p] have k: "post_id p = pid" by simp
  from v have m: "http_method req = POST"
    by (simp add: validate_on_submit_def)
  have "edit_post pid req s =
          Inr (Redirect (Show_post_ep pid),
               s\<lparr>posts := map (\<lambda>q. if post_id q = pid then p' else q) (posts s)\<rparr>)"
    using p v u k m by (simp add: edit_post_def get_or_404_def Let_def p'_def)
  with assms have s': "s' = s\<lparr>posts := map (\<lambda>q. if post_id q = pid then p' else q) (posts s)\<rparr>"
    by simp
  have "find (\<lambda>q. post_id q = pid) (posts s') = Some p'"
    unfolding s' using find_map_update [OF p, of p'] k by (simp add: p'_def)
  moreover have "post_id p' = post_id p" "date p' = date p"
    by (simp_all add: p'_def)
  moreover have "p' = p\<lparr>title := title p', subtitle := subtitle p', img_url := img_url p',
                     author := author p', body := body p'\<rparr>"
    by (simp add: p'_def)
  moreover have "users s' = users s" "comments s' = comments s"
    "session_user_id s' = session_user_id s" "flashes s' = flashes s"
    by (simp_all add: s')
  ultimately show ?thesis using p by blast
qed


theorem edit_post_frame_witness:
  "edit_post 1 (submit draft) (blog (Some 2)) =
       Inr (Redirect (Show_post_ep 1),
            (blog (Some 2))\<lparr>posts :=
               [\<lparr>post_id = 1, title = ''News'', subtitle = ''Second post'', body = ''More text'',
                 img_url = ''https://example.com/b.png'', author = 2,
                 date = ''March 05, 2024''\<rparr>]\<rparr>)
   \<and> find (\<lambda>q. post_id q = 1) (posts (blog (Some 2))) = Some hello_post
   \<and> post_id hello_post = 1 \<and> date hello_post = ''March 05, 2024''"
proof -
  have f: "find (\<lambda>q. post_id q = 1) (posts (blog (Some 2))) = Some hello_post"
    by (simp add: blog_def hello_post_def)
  have e: "edit_post 1 (submit draft) (blog (Some 2)) =
       Inr (Redirect (Show_post_ep 1),
            (blog (Some 2))\<lparr>posts :=
               [\<lparr>post_id = 1, title = ''News'', subtitle = ''Second post'', body = ''More text'',
                 img_url = ''https://example.com/b.png'', author = 2,
                 date = ''March 05, 2024''\<rparr>]\<rparr>)"
    using f
    by (simp add: edit_post_def get_or_404_def current_user_blog Let_def)
      (simp add: blog_def hello_post_def draft_def bob_def)
  from edit_post_frame [OF e] obtain p p'
    where "find (\<lambda>q. post_id q = 1) (posts (blog (Some 2))) = Some p"
      and "find (\<lambda>q. post_id q = 1)
             (posts ((blog (Some 2))\<lparr>posts :=
               [\<lparr>post_id = 1, title = ''News'', subtitle = ''Second post'', body = ''More text'',
                 img_url = ''https://example.com/b.png'', author = 2,
                 date = ''March 05, 2024''\<rparr>]\<rparr>)) = Some p'"
      and "post_id p' = post_id p" and "date p' = date p"
    by blast
  with f have "post_id hello_post = 1 \<and> date hello_post = ''March 05, 2024''"
    by auto
  with e f show ?thesis by simp
qed

section \<open>Contact form\<close>

text \<open>
  C8. For a valid contact submission the handler always returns a redirect to the contact page,
  whatever the mail transport does: when \<^verbatim>\<open>send_email\<close> returns, the success message is
  queued; when it raises, whichever exception it is, the failure message is queued and no error
  leaves the handler.
\<close>

theorem contact_contract:
  assumes "validate_on_submit req"
  shows "(send_email (construct_msg FROM_EMAIL (ct_name (form req)) (ct_email (form req))
                        (ct_phone_number (form req)) (ct_message (form req))) = None \<longrightarrow>
            contact FROM_EMAIL send_email req s =
              Inr (Redirect Contact_ep,
                   s\<lparr>flashes := flashes s @
                      [(''success'', ''Your message has been sent successfully!'')]\<rparr>))
       \<and> (\<forall>exn. send_email (construct_msg FROM_EMAIL (ct_name (form req)) (ct_email (form req))
                        (ct_phone_number (form req)) (ct_message (form req))) = Some exn \<longrightarrow>
            contact FROM_EMAIL send_email req s =
              Inr (Redirect Contact_ep,
                   s\<lparr>flashes := flashes s @
                      [(''danger'', ''An unexpected error occurred. Please try again later'')]\<rparr>))
       \<and> (\<exists>s'. contact FROM_EMAIL send_email req s = Inr (Redirect Contact_ep, s'))"
  using assms
  by (cases "send_email (construct_msg FROM_EMAIL (ct_name (form req)) (ct_email (form req))
                        (ct_phone_number (form req)) (ct_message (form req)))")
    (simp_all add: contact_def flash_eq Let_def)

theorem contact_contract_witness:
  "validate_on_submit (submit enquiry)
   \<and> mail_ok (construct_msg (Some ''blog@example.com'') (ct_name (form (submit enquiry)))
        (ct_email (form (submit enquiry))) (ct_phone_number (form (submit enquiry)))
        (ct_message (form (submit enquiry)))) = None
   \<and> contact (Some ''blog@example.com'') mail_ok (submit enquiry) (blog None) =
       Inr (Redirect Contact_ep,
            (blog None)\<lparr>flashes := [(''success'', ''Your message has been sent successfully!'')]\<rparr>)
   \<and> mail_down (construct_msg (Some ''blog@example.com'') (ct_name (form (submit enquiry)))
        (ct_email (form (submit enquiry))) (ct_phone_number (form (submit enquiry)))
        (ct_message (form (submit enquiry)))) = Some ''SMTPServerDisconnected''
   \<and> contact (Some ''blog@example.com'') mail_down (submit enquiry) (blog None) =
       Inr (Redirect Contact_ep,
            (blog None)\<lparr>flashes :=
               [(''danger'', ''An unexpected error occurred. Please try again later'')]\<rparr>)"
proof -
  note a = contact_contract [OF validate_submit, of mail_ok "Some ''blog@example.com''" enquiry
      "blog None", THEN conjunct1]
  note b = contact_contract [OF validate_submit, of mail_down "Some ''blog@example.com''" enquiry
      "blog None", THEN conjunct2, THEN conjunct1, rule_format, of "''SMTPServerDisconnected''"]
  have fl: "flashes (blog None) = []"
    by (simp add: blog_def)
  have ok: "mail_ok m = None" and down: "mail_down m = Some ''SMTPServerDisconnected''" for m
    by (simp_all add: mail_ok_def mail_down_def)
  from a ok have 1: "contact (Some ''blog@example.com'') mail_ok (submit enquiry) (blog None) =
       Inr (Redirect Contact_ep,
            (blog None)\<lparr>flashes := [(''success'', ''Your message has been sent successfully!'')]\<rparr>)"
    by (simp add: fl)
  from b down have 2: "contact (Some ''blog@example.com'') mail_down (submit enquiry) (blog None) =
       Inr (Redirect Contact_ep,
            (blog None)\<lparr>flashes :=
               [(''danger'', ''An unexpected error occurred. Please try again later'')]\<rparr>)"
    by (simp add: fl)
  from 1 2 ok down show ?thesis by simp
qed

section \<open>Avatar link\<close>

text \<open>
  C9. The call \<^verbatim>\<open>gravatar_url()\<close> with the default parameters gives one fixed string, in
  which the path ends at \<^verbatim>\<open>/avatar/\<close> with no hash of an email; every page the post route
  renders, for every request, state and post, carries exactly this string as its avatar link.
\<close>

theorem gravatar_link_fixed:
  "gravatar_url 100 ''g'' ''retro'' False =
     ''https://www.gravatar.com/avatar/?s=100&d=retro&r=g&f=False''
   \<and> (\<forall>k pid req s pg s'. show_post k pid req s = Inr (Render pg, s') \<longrightarrow>
        (\<exists>p. pg = Post_html p ''https://www.gravatar.com/avatar/?s=100&d=retro&r=g&f=False''))"
proof (intro conjI allI impI)
  show "gravatar_url 100 ''g'' ''retro'' False =
     ''https://www.gravatar.com/avatar/?s=100&d=retro&r=g&f=False''"
    using gravatar_url_default_eq by (simp add: gravatar_url_default_def)
next
  fix k pid req s pg s'
  assume "show_post k pid req s = Inr (Render pg, s')"
  from show_post_render [OF this]
  show "\<exists>p. pg = Post_html p ''https://www.gravatar.com/avatar/?s=100&d=retro&r=g&f=False''"
    by (simp add: gravatar_url_default_eq)
qed

theorem gravatar_link_fixed_witness:
  "show_post 7 1 (fetch nice_comment) (blog None) =
     Inr (Render (Post_html hello_post
            ''https://www.gravatar.com/avatar/?s=100&d=retro&r=g&f=False''), blog None)
   \<and> show_post 7 1 (submit nice_comment) (blog (Some 2)) =
     Inr (Render (Post_html hello_post
            ''https://www.gravatar.com/avatar/?s=100&d=retro&r=g&f=False''),
          (blog (Some 2))\<lparr>comments :=
               [\<lparr>comment_id = 7, comment_text = ''Nice'', comment_author = 2,
                 parent_post = Some 1\<rparr>]\<rparr>)"
proof -
  have f: "find (\<lambda>p. post_id p = 1) (posts (blog sess)) = Some hello_post" for sess
    by (simp add: blog_def hello_post_def)
  have c: "comments (blog sess) = []" for sess
    by (simp add: blog_def)
  have id1: "post_id hello_post = 1" and id2: "user_id bob = 2"
    by (simp_all add: hello_post_def bob_def)
  have g: "show_post 7 1 (fetch nice_comment) (blog None) =
     Inr (Render (Post_html hello_post gravatar_url_default), blog None)"
    using f [of None] by (simp add: show_post_def get_or_404_def)
  have h: "show_post 7 1 (submit nice_comment) (blog (Some 2)) =
     Inr (Render (Post_html hello_post gravatar_url_default),
          (blog (Some 2))\<lparr>comments :=
               [\<lparr>comment_id = 7, comment_text = ''Nice'', comment_author = 2,
                 parent_post = Some 1\<rparr>]\<rparr>)"
    using f [of "Some 2"] id1 id2
    by (simp add: show_post_def get_or_404_def current_user_blog Let_def c nice_comment_def)
  from gravatar_link_fixed [THEN conjunct2, rule_format, OF g]
    gravatar_link_fixed [THEN conjunct2, rule_format, OF h] g h
  show ?thesis by simp
qed

end
